theory Spec2Isabelle
  imports Complex_Main "HOL-Library.Word" "HOL-Library.Sublist"
begin

section \<open>JavaScript strings\<close>

text \<open>
  A JavaScript string is a finite sequence of UTF-16 code units; \<open>length\<close>,
  \<open>slice\<close>, \<open>split\<close>, \<open>startsWith\<close>, \<open>includes\<close> and \<open>===\<close> all work on code
  units. The string literals of \<open>api/chat.js\<close> that the handler compares with are
  ASCII, so they are written with \<open>ascii\<close>, which gives each character its code unit.
\<close>

type_synonym codeunit = "16 word"
type_synonym jsstring = "codeunit list"

definition ascii :: "string \<Rightarrow> jsstring" where
  "ascii s = map of_char s"

text \<open>
  \<open>String.prototype.trim\<close> removes the code units of the ECMAScript productions
  WhiteSpace (TAB, VT, FF, SP, NBSP, ZWNBSP and the category Zs) and LineTerminator
  (LF, CR, LS, PS) from both ends.
\<close>

definition isWhiteSpace :: "codeunit \<Rightarrow> bool" where
  "isWhiteSpace c \<longleftrightarrow>
     c = 0x0009 \<or> c = 0x000A \<or> c = 0x000B \<or> c = 0x000C \<or> c = 0x000D \<or>
     c = 0x0020 \<or> c = 0x00A0 \<or> c = 0x1680 \<or> (0x2000 \<le> c \<and> c \<le> 0x200A) \<or>
     c = 0x2028 \<or> c = 0x2029 \<or> c = 0x202F \<or> c = 0x205F \<or> c = 0x3000 \<or>
     c = 0xFEFF"

definition trim :: "jsstring \<Rightarrow> jsstring" where
  "trim s = rev (dropWhile isWhiteSpace (rev (dropWhile isWhiteSpace s)))"

text \<open>
  \<open>s.split(sep)\<close> for a separator of one code unit: the pieces between the
  occurrences of the separator, empty pieces included; the empty string gives one
  empty piece.
\<close>

fun split :: "jsstring \<Rightarrow> codeunit \<Rightarrow> jsstring list" where
  "split [] sep = [[]]"
| "split (c # cs) sep =
     (if c = sep then [] # split cs sep
      else (case split cs sep of [] \<Rightarrow> [[c]] | t # ts \<Rightarrow> (c # t) # ts))"

definition startsWith :: "jsstring \<Rightarrow> jsstring \<Rightarrow> bool" where
  "startsWith s p \<longleftrightarrow> take (length p) s = p"

fun includes_str :: "jsstring \<Rightarrow> jsstring \<Rightarrow> bool" where
  "includes_str [] p \<longleftrightarrow> p = []"
| "includes_str (c # cs) p \<longleftrightarrow> startsWith (c # cs) p \<or> includes_str cs p"

text \<open>
  \<open>xs.slice(start, end)\<close> of strings and arrays: a negative index counts from the
  end, both indices are clamped to the length, and a missing \<open>end\<close> is the length.
\<close>

definition slice_list :: "'a list \<Rightarrow> int \<Rightarrow> int option \<Rightarrow> 'a list" where
  "slice_list xs start fin =
     (let len = int (length xs);
          k = (if start < 0 then max (len + start) 0 else min start len);
          final = (case fin of None \<Rightarrow> len
                   | Some e \<Rightarrow> if e < 0 then max (len + e) 0 else min e len)
      in take (nat (final - k)) (drop (nat k) xs))"

text \<open>
  \<open>String.prototype.toLowerCase\<close> follows the Unicode case mappings of the
  runtime, which are no part of the repository: the classifier and the handler take
  it as a parameter, and what is proved of them holds for every such function.
  \<open>toLowerCase_ascii\<close> is the function on strings of ASCII code units, where only
  the letters A to Z change; it is what the parameter is at the concrete ASCII
  inputs evaluated below.
\<close>

definition toLowerCase_ascii :: "jsstring \<Rightarrow> jsstring" where
  "toLowerCase_ascii s = map (\<lambda>c. if 0x41 \<le> c \<and> c \<le> 0x5A then c + 0x20 else c) s"

section \<open>The complexity classifier\<close>

datatype tier = Simple | Medium | Complex

definition simplePatterns :: "jsstring list" where
  "simplePatterns = map ascii
     [''hi'', ''hello'', ''hey'', ''thanks'', ''thank you'', ''ok'', ''okay'',
      ''yes'', ''no'', ''sure'', ''great'', ''awesome'', ''cool'', ''got it'']"

definition complexPatterns :: "jsstring list" where
  "complexPatterns = map ascii
     [''integrate'', ''api'', ''technical'', ''architecture'', ''how exactly'',
      ''explain in detail'', ''step by step'', ''compare'', ''difference between'',
      ''custom'', ''specific'', ''enterprise'', ''compliance'', ''gdpr'', ''soc'',
      ''multiple'', ''several'', ''and also'', ''also want'', ''in addition'']"

text \<open>
  \<open>detectComplexity(message, history)\<close> of \<open>api/chat.js\<close>, lines 55 to 82. The
  handler calls it with a string and an array, and the array is only asked for its
  length.
\<close>

definition detectComplexity :: "(jsstring \<Rightarrow> jsstring) \<Rightarrow> jsstring \<Rightarrow> 'a list \<Rightarrow> tier" where
  "detectComplexity toLowerCase message history =
     (let text = trim (toLowerCase message);
          wordCount = length (split message 0x20);
          historyLen = length history;
          isGreeting = list_ex (\<lambda>p. text = p \<or> startsWith text (p @ ascii '' '')) simplePatterns
      in if isGreeting \<or> wordCount \<le> 4 then Simple
         else
           let isComplex = list_ex (\<lambda>p. includes_str text p) complexPatterns \<or> wordCount > 25
           in if isComplex \<or> historyLen > 8 then Complex
              else Medium)"


text \<open>
  \<open>detectComplexity\<close> of the second source file (\<open>src/unnamed/part_000\<close>, lines
  40 to 67), with the pattern tables written there.
\<close>

definition simplePatterns_part_000 :: "jsstring list" where
  "simplePatterns_part_000 = map ascii
     [''hi'', ''hello'', ''hey'', ''thanks'', ''thank you'', ''ok'', ''okay'',
      ''yes'', ''no'', ''sure'', ''great'', ''awesome'', ''cool'', ''got it'']"

definition complexPatterns_part_000 :: "jsstring list" where
  "complexPatterns_part_000 = map ascii
     [''integrate'', ''api'', ''technical'', ''architecture'', ''how exactly'',
      ''explain in detail'', ''step by step'', ''compare'', ''difference between'',
      ''custom'', ''specific'', ''enterprise'', ''compliance'', ''gdpr'', ''soc'',
      ''multiple'', ''several'', ''and also'', ''also want'', ''in addition'']"

definition detectComplexity_part_000 ::
  "(jsstring \<Rightarrow> jsstring) \<Rightarrow> jsstring \<Rightarrow> 'a list \<Rightarrow> tier" where
  "detectComplexity_part_000 toLowerCase message history =
     (let text = trim (toLowerCase message);
          wordCount = length (split message 0x20);
          historyLen = length history;
          isGreeting =
            list_ex (\<lambda>p. text = p \<or> startsWith text (p @ ascii '' '')) simplePatterns_part_000
      in if isGreeting \<or> wordCount \<le> 4 then Simple
         else
           let isComplex =
                 list_ex (\<lambda>p. includes_str text p) complexPatterns_part_000 \<or> wordCount > 25
           in if isComplex \<or> historyLen > 8 then Complex
              else Medium)"

section \<open>JavaScript values\<close>

text \<open>
  The values that \<open>JSON.parse\<close> gives, and \<open>undefined\<close>: the request body and the
  payload of the provider's response are such values. A number is a double: not a
  number, an infinity (what \<open>JSON.parse\<close> gives for a literal out of range), or a
  finite value; the two zeros are the one value \<open>Finite 0\<close>, which loses nothing
  here, since the handler only asks whether a value is falsy. An object is the list
  of its own properties, in which the first binding of a name is the property's
  value.
\<close>

datatype jsnum = NaN | PosInfinity | NegInfinity | Finite rat

datatype jsval =
    JUndefined
  | JNull
  | JBool bool
  | JNum jsnum
  | JStr jsstring
  | JArr "jsval list"
  | JObj "(jsstring \<times> jsval) list"

datatype js_error = TypeError | SyntaxError | Error jsstring

text \<open>The operator \<open>!\<close>: the falsy values are \<open>undefined\<close>, \<open>null\<close>, \<open>false\<close>,
  zero, not-a-number and the empty string.\<close>

fun falsy :: "jsval \<Rightarrow> bool" where
  "falsy JUndefined \<longleftrightarrow> True"
| "falsy JNull \<longleftrightarrow> True"
| "falsy (JBool b) \<longleftrightarrow> \<not> b"
| "falsy (JNum n) \<longleftrightarrow> n = NaN \<or> n = Finite 0"
| "falsy (JStr s) \<longleftrightarrow> s = []"
| "falsy (JArr xs) \<longleftrightarrow> False"
| "falsy (JObj kvs) \<longleftrightarrow> False"

fun typeof :: "jsval \<Rightarrow> jsstring" where
  "typeof JUndefined = ascii ''undefined''"
| "typeof JNull = ascii ''object''"
| "typeof (JBool b) = ascii ''boolean''"
| "typeof (JNum n) = ascii ''number''"
| "typeof (JStr s) = ascii ''string''"
| "typeof (JArr xs) = ascii ''object''"
| "typeof (JObj kvs) = ascii ''object''"

text \<open>
  \<open>v.name\<close>, for the names the handler reads (\<open>message\<close>, \<open>history\<close>, \<open>sender\<close>,
  \<open>text\<close>, \<open>choices\<close>, \<open>content\<close>): none of them is an array index or a property of
  a built-in prototype, so only an object can have one. Reading a property of
  \<open>undefined\<close> or \<open>null\<close> throws a TypeError; on any other value that is no object
  it gives \<open>undefined\<close>.
\<close>

fun getMember :: "jsval \<Rightarrow> jsstring \<Rightarrow> js_error + jsval" where
  "getMember JUndefined name = Inl TypeError"
| "getMember JNull name = Inl TypeError"
| "getMember (JObj kvs) name =
     Inr (case map_of kvs name of None \<Rightarrow> JUndefined | Some v \<Rightarrow> v)"
| "getMember v name = Inr JUndefined"

text \<open>\<open>v[0]\<close>: the first element of an array, the first code unit of a string, the
  property \<open>"0"\<close> of an object.\<close>

fun getIndex0 :: "jsval \<Rightarrow> js_error + jsval" where
  "getIndex0 JUndefined = Inl TypeError"
| "getIndex0 JNull = Inl TypeError"
| "getIndex0 (JArr xs) = Inr (case xs of [] \<Rightarrow> JUndefined | x # _ \<Rightarrow> x)"
| "getIndex0 (JStr s) = Inr (case s of [] \<Rightarrow> JUndefined | c # _ \<Rightarrow> JStr [c])"
| "getIndex0 (JObj kvs) =
     Inr (case map_of kvs (ascii ''0'') of None \<Rightarrow> JUndefined | Some v \<Rightarrow> v)"
| "getIndex0 v = Inr JUndefined"

definition nullish :: "jsval \<Rightarrow> bool" where
  "nullish v \<longleftrightarrow> v = JUndefined \<or> v = JNull"

text \<open>
  \<open>data.choices?.[0]?.message?.content\<close> (line 142): the first access is a plain
  one and throws on \<open>null\<close>; each \<open>?.\<close> ends the whole chain with \<open>undefined\<close> when
  the value before it is \<open>undefined\<close> or \<open>null\<close>.
\<close>

definition extractReply :: "jsval \<Rightarrow> js_error + jsval" where
  "extractReply data =
     (case getMember data (ascii ''choices'') of
        Inl e \<Rightarrow> Inl e
      | Inr choices \<Rightarrow>
          if nullish choices then Inr JUndefined
          else (case getIndex0 choices of
                  Inl e \<Rightarrow> Inl e
                | Inr choice \<Rightarrow>
                    if nullish choice then Inr JUndefined
                    else (case getMember choice (ascii ''message'') of
                            Inl e \<Rightarrow> Inl e
                          | Inr msg \<Rightarrow>
                              if nullish msg then Inr JUndefined
                              else getMember msg (ascii ''content''))))"

section \<open>The request handler\<close>

definition MODELS :: "tier \<Rightarrow> jsstring" where
  "MODELS complexity =
     (case complexity of
        Simple \<Rightarrow> ascii ''x-ai/grok-4.1-fast''
      | Medium \<Rightarrow> ascii ''x-ai/grok-4.1-fast''
      | Complex \<Rightarrow> ascii ''x-ai/grok-4.1-fast'')"

text \<open>The string that a tier is in the source, as the response carries it.\<close>

definition tier_name :: "tier \<Rightarrow> jsstring" where
  "tier_name complexity =
     (case complexity of
        Simple \<Rightarrow> ascii ''simple''
      | Medium \<Rightarrow> ascii ''medium''
      | Complex \<Rightarrow> ascii ''complex'')"

text \<open>The template literal of lines 13 to 52; it has no substitution.\<close>

definition SYSTEM_PROMPT :: jsstring where
  "SYSTEM_PROMPT = concat
    [
     ascii ''You are Emily, a customer service representative for Valure '', [0x2014],
     ascii '' an AI automation agency that helps home service contractors eliminate '',
     ascii ''repetitive work and recover lost revenue through custom-built AI systems.'',
     [0x000A],
     [0x000A],
     ascii ''Your personality:'', [0x000A],
     ascii ''- Warm, conversational, and genuinely helpful '', [0x2014],
     ascii '' like a knowledgeable colleague, not a scripted bot'', [0x000A],
     ascii ''- Business oriented and results focused '', [0x2014],
     ascii '' you care about solving real problems, not just answering questions'', [0x000A],
     ascii ''- Experienced '', [0x2014],
     ascii '' you give specific, informed answers, never vague or generic ones'', [0x000A],
     ascii ''- Honest '', [0x2014], ascii '' if you don'', [0x0027],
     ascii ''t know something, you say so and direct them to the team'', [0x000A],
     ascii ''- Concise '', [0x2014],
     ascii '' 2 to 3 sentences per response unless the question genuinely requires more'',
     [0x000A],
     ascii ''- Never use emoji of any kind'', [0x000A],
     ascii ''- Never start a response with '', [0x0022], ascii ''Great question'', [0x0022],
     ascii '' or '', [0x0022], ascii ''Absolutely'', [0x0022],
     ascii '' or similar hollow openers'', [0x000A],
     ascii ''- Always acknowledge what the visitor said before answering '', [0x2014],
     ascii '' show you'', [0x0027], ascii ''re actually listening'', [0x000A],
     ascii ''- End most responses with one natural follow up question to keep the '',
     ascii ''conversation going'', [0x000A],
     [0x000A],
     ascii ''How you approach contractors:'', [0x000A],
     ascii ''- These are busy tradespeople '', [0x2014],
     ascii '' plumbers, electricians, HVAC techs '', [0x2014],
     ascii '' not corporate executives'', [0x000A],
     ascii ''- They'', [0x0027],
     ascii ''re often stressed, running lean, and losing money to problems they haven'', [0x0027],
     ascii ''t had time to fix'', [0x000A],
     ascii ''- Acknowledge their pain specifically before moving to the solution'', [0x000A],
     ascii ''- Speak plainly '', [0x2014], ascii '' no jargon, no buzzwords, no fluff'', [0x000A],
     ascii ''- Be direct about what Valure does and what it costs '', [0x2014],
     ascii '' contractors respect straight talk'', [0x000A],
     [0x000A],
     ascii ''Key facts about Valure '', [0x2014], ascii '' know these cold:'', [0x000A],
     ascii ''- We build custom AI automation systems, not off-the-shelf tools or templates'',
     [0x000A],
     ascii ''- Core services: missed call text-back, appointment confirmations, review '',
     ascii ''requests, lead follow-up sequences, AI workflow automation, AI agents, '',
     ascii ''custom integrations, data and reporting automation'', [0x000A],
     ascii ''- Missed call text-back: when a call goes unanswered, AI sends a text '',
     ascii ''within seconds keeping the lead warm before they call a competitor'', [0x000A],
     ascii ''- Pricing: project builds start from $8,000, managed retainers start from '',
     ascii ''$3,500 per month'', [0x000A],
     ascii ''- Free automation audit: 30 minute call, zero pressure, zero cost '', [0x2014],
     ascii '' we map their workflows and show them exactly what automation is worth to '',
     ascii ''their business'', [0x000A],
     ascii ''- Timeline: first automation live within 14 days of kickoff, simple '',
     ascii ''workflows in as little as 7 days'', [0x000A],
     ascii ''- No contracts '', [0x2014], ascii '' cancel anytime'', [0x000A],
     ascii ''- Data is encrypted in transit and at rest, never shared with third '',
     ascii ''parties, GDPR compliant'', [0x000A],
     ascii ''- We respond to all inquiries within 2 business hours Monday through Friday'',
     [0x000A],
     ascii ''- Target clients: home service contractors doing $500K to $50M in revenue'',
     [0x000A],
     [0x000A],
     ascii ''How to handle common situations:'', [0x000A],
     ascii ''- Visitor asks about cost: give the real numbers, then explain what they '',
     ascii ''get for it'', [0x000A],
     ascii ''- Visitor mentions missing calls: acknowledge how costly that is '',
     ascii ''specifically, then explain the text-back system'', [0x000A],
     ascii ''- Visitor seems hesitant: don'', [0x0027], ascii ''t push '', [0x2014],
     ascii '' acknowledge their hesitation and offer the free audit as a no risk way to '',
     ascii ''get clarity'', [0x000A],
     ascii ''- Visitor asks something outside your knowledge: say '', [0x0022], ascii ''That'',
     [0x0027], ascii ''s a good one for our team '', [0x2014],
     ascii '' they can give you a straight answer. Fill out the contact form and we'', [0x0027],
     ascii ''ll get back to you within 2 business hours.'', [0x0022], [0x000A],
     ascii ''- Visitor is ready to move forward: direct them clearly to the contact form '',
     ascii ''below'', [0x000A],
     [0x000A],
     ascii ''Never fabricate pricing, timelines, or promises not listed above. When in '',
     ascii ''doubt, direct to the team.''
    ]"

text \<open>The request as the handler reads it, and the response it sends with
  \<open>res.status(code).json(value)\<close>.\<close>

record request =
  "method" :: jsstring
  body :: jsval

record http_response =
  status :: nat
  json :: jsval

text \<open>The call of \<open>fetch\<close> (lines 115 to 133): the address, the options, and the
  object that \<open>JSON.stringify\<close> turns into the body.\<close>

datatype role = System | User | Assistant

record upstream_message =
  role :: role
  content :: jsval

record fetch_call =
  url :: jsstring
  fetch_method :: jsstring
  headers :: "(jsstring \<times> jsstring) list"
  model :: jsstring
  messages :: "upstream_message list"
  max_tokens :: nat
  temperature :: rat

text \<open>
  What the provider answers: the promise of \<open>fetch\<close> is rejected, or it resolves
  to a response with its \<open>ok\<close> flag; \<open>response.text()\<close> and \<open>response.json()\<close> each
  give a value or are rejected (\<open>json()\<close> with a SyntaxError when the body is no
  JSON text).
\<close>

record fetch_response =
  ok :: bool
  body_text :: "js_error + jsstring"
  body_json :: "js_error + jsval"

datatype fetch_outcome = Rejected js_error | Resolved fetch_response

text \<open>
  What surrounds the handler: the credential read from \<open>process.env\<close> when the
  module is loaded (\<open>None\<close> when the variable is not set), the runtime's
  \<open>toLowerCase\<close>, and the provider, which answers each call.
\<close>

record env =
  OPENROUTER_API_KEY :: "jsstring option"
  toLowerCase :: "jsstring \<Rightarrow> jsstring"
  fetch :: "fetch_call \<Rightarrow> fetch_outcome"

text \<open>The two lines that \<open>console.error\<close> writes: the provider's error text (line
  137), and the message of the error that the \<open>catch\<close> block caught (line 153).\<close>

datatype log_entry = OpenRouter_error jsstring | Chat_handler_error js_error

text \<open>What one invocation does: the response sent, the calls made to the provider
  and the lines logged, each in order.\<close>

record outcome =
  response :: http_response
  calls :: "fetch_call list"
  logs :: "log_entry list"

definition error_body :: "string \<Rightarrow> jsval" where
  "error_body msg = JObj [(ascii ''error'', JStr (ascii msg))]"

definition respond :: "nat \<Rightarrow> jsval \<Rightarrow> outcome" where
  "respond code v = \<lparr>response = \<lparr>status = code, json = v\<rparr>, calls = [], logs = []\<rparr>"

text \<open>\<open>const { message, history = [] } = req.body\<close> (line 95): destructuring
  \<open>undefined\<close> or \<open>null\<close> throws, and the default stands in for \<open>undefined\<close> only.\<close>

definition destructure :: "jsval \<Rightarrow> js_error + jsval \<times> jsval" where
  "destructure b =
     (case getMember b (ascii ''message'') of
        Inl e \<Rightarrow> Inl e
      | Inr message \<Rightarrow>
          (case getMember b (ascii ''history'') of
             Inl e \<Rightarrow> Inl e
           | Inr history \<Rightarrow>
               Inr (message, if history = JUndefined then JArr [] else history)))"

text \<open>The arrow function of line 109, on one element of the history.\<close>

definition toChatMessage :: "jsval \<Rightarrow> js_error + upstream_message" where
  "toChatMessage m =
     (case getMember m (ascii ''sender'') of
        Inl e \<Rightarrow> Inl e
      | Inr sender \<Rightarrow>
          (case getMember m (ascii ''text'') of
             Inl e \<Rightarrow> Inl e
           | Inr txt \<Rightarrow>
               Inr \<lparr>role = (if sender = JStr (ascii ''user'') then User else Assistant),
                    content = txt\<rparr>))"

text \<open>\<open>Array.prototype.map\<close> with a callback that may throw: the first exception
  ends it.\<close>

fun map_throwing :: "('a \<Rightarrow> js_error + 'b) \<Rightarrow> 'a list \<Rightarrow> js_error + 'b list" where
  "map_throwing f [] = Inr []"
| "map_throwing f (x # xs) =
     (case f x of
        Inl e \<Rightarrow> Inl e
      | Inr y \<Rightarrow> (case map_throwing f xs of Inl e \<Rightarrow> Inl e | Inr ys \<Rightarrow> Inr (y # ys)))"

definition buildCall ::
  "jsstring \<Rightarrow> jsstring \<Rightarrow> upstream_message list \<Rightarrow> jsstring \<Rightarrow> fetch_call" where
  "buildCall key mdl chatHistory sanitized =
     \<lparr>url = ascii ''https://openrouter.ai/api/v1/chat/completions'',
      fetch_method = ascii ''POST'',
      headers =
        [(ascii ''Authorization'', ascii ''Bearer '' @ key),
         (ascii ''Content-Type'', ascii ''application/json''),
         (ascii ''HTTP-Referer'', ascii ''https://valure.io''),
         (ascii ''X-Title'', ascii ''Valure AI Assistant'')],
      model = mdl,
      messages =
        [\<lparr>role = System, content = JStr SYSTEM_PROMPT\<rparr>] @ chatHistory @
        [\<lparr>role = User, content = JStr sanitized\<rparr>],
      max_tokens = 300,
      temperature = 7 / 10\<rparr>"

text \<open>The \<open>catch\<close> block (lines 152 to 157), entered after the call \<open>c\<close> with the
  lines logged so far.\<close>

definition caught :: "fetch_call \<Rightarrow> log_entry list \<Rightarrow> js_error \<Rightarrow> outcome" where
  "caught c logged e =
     \<lparr>response = \<lparr>status = 500, json = error_body ''Something went wrong. Please try again.''\<rparr>,
      calls = [c],
      logs = logged @ [Chat_handler_error e]\<rparr>"

text \<open>The \<open>try\<close> block (lines 114 to 151).\<close>

definition tryBlock :: "env \<Rightarrow> tier \<Rightarrow> jsstring \<Rightarrow> fetch_call \<Rightarrow> outcome" where
  "tryBlock e complexity mdl c =
     (case fetch e c of
        Rejected err \<Rightarrow> caught c [] err
      | Resolved resp \<Rightarrow>
          if \<not> ok resp then
            (case body_text resp of
               Inl err \<Rightarrow> caught c [] err
             | Inr err \<Rightarrow>
                 caught c [OpenRouter_error err] (Error (ascii ''OpenRouter request failed'')))
          else
            (case body_json resp of
               Inl err \<Rightarrow> caught c [] err
             | Inr data \<Rightarrow>
                 (case extractReply data of
                    Inl err \<Rightarrow> caught c [] err
                  | Inr reply \<Rightarrow>
                      if falsy reply then caught c [] (Error (ascii ''No response from model''))
                      else
                        \<lparr>response =
                           \<lparr>status = 200,
                            json = JObj [(ascii ''reply'', reply),
                                         (ascii ''model'', JStr mdl),
                                         (ascii ''complexity'', JStr (tier_name complexity))]\<rparr>,
                         calls = [c],
                         logs = []\<rparr>)))"

text \<open>
  \<open>handler(req, res)\<close> (lines 84 to 158). \<open>Inl\<close> is an exception that leaves the
  handler: everything before the \<open>try\<close> block is outside it. A \<open>history\<close> that is
  no array ends so: \<open>null.length\<close> throws inside \<open>detectComplexity\<close>, and for a
  string, a number, a boolean or an object \<open>history.slice(-6).map\<close> is no function
  (line 109), whatever tier was computed before. After the test of line 97 the
  message is a string, so the last case of \<open>message\<close> is never taken.
\<close>

definition handler :: "env \<Rightarrow> request \<Rightarrow> js_error + outcome" where
  "handler e req =
     (if method req \<noteq> ascii ''POST'' then
        Inr (respond 405 (error_body ''Method not allowed''))
      else
        (case OPENROUTER_API_KEY e of
           None \<Rightarrow> Inr (respond 500 (error_body ''API key not configured''))
         | Some key \<Rightarrow>
             if key = [] then Inr (respond 500 (error_body ''API key not configured''))
             else
               (case destructure (body req) of
                  Inl err \<Rightarrow> Inl err
                | Inr (message, history) \<Rightarrow>
                    if falsy message \<or> typeof message \<noteq> ascii ''string'' then
                      Inr (respond 400 (error_body ''Invalid message''))
                    else
                      (case (message, history) of
                         (JStr msg, JArr hist) \<Rightarrow>
                           let sanitized = slice_list msg 0 (Some 500);
                               complexity = detectComplexity (toLowerCase e) sanitized hist;
                               mdl = MODELS complexity
                           in (case map_throwing toChatMessage (slice_list hist (- 6) None) of
                                 Inl err \<Rightarrow> Inl err
                               | Inr chatHistory \<Rightarrow>
                                   Inr (tryBlock e complexity mdl
                                          (buildCall key mdl chatHistory sanitized)))
                       | _ \<Rightarrow> Inl TypeError))))"

section \<open>Example requests and providers\<close>

text \<open>Concrete requests, histories and providers, at which the theorems below are
  evaluated.\<close>

definition turn :: "string \<Rightarrow> string \<Rightarrow> jsval" where
  "turn who said = JObj [(ascii ''sender'', JStr (ascii who)), (ascii ''text'', JStr (ascii said))]"

definition ten_turns :: "jsval list" where
  "ten_turns =
     [turn ''user'' ''q1'', turn ''bot'' ''a1'', turn ''user'' ''q2'', turn ''bot'' ''a2'',
      turn ''user'' ''q3'', turn ''emily'' ''a3'', turn ''user'' ''q4'', turn ''User'' ''a4'',
      turn ''user'' ''q5'', turn ''bot'' ''a5'']"

definition post_chat :: "jsstring \<Rightarrow> jsval list \<Rightarrow> request" where
  "post_chat msg hist =
     \<lparr>method = ascii ''POST'',
      body = JObj [(ascii ''message'', JStr msg), (ascii ''history'', JArr hist)]\<rparr>"

text \<open>A provider that answers \<open>{"choices":[{"message":{"content":"Happy to help."}}]}\<close>,
  one that answers without success and with a plain text, and one that answers
  \<open>{"choices":[]}\<close>.\<close>

definition provider_replies :: "fetch_call \<Rightarrow> fetch_outcome" where
  "provider_replies c =
     Resolved
       \<lparr>ok = True,
        body_text =
          Inr (concat [ascii ''{'', [0x22], ascii ''choices'', [0x22], ascii '':[{'', [0x22],
                       ascii ''message'', [0x22], ascii '':{'', [0x22], ascii ''content'', [0x22],
                       ascii '':'', [0x22], ascii ''Happy to help.'', [0x22], ascii ''}}]}'']),
        body_json =
          Inr (JObj [(ascii ''choices'',
                      JArr [JObj [(ascii ''message'',
                                   JObj [(ascii ''content'', JStr (ascii ''Happy to help.''))])]])])\<rparr>"

definition provider_refuses :: "fetch_call \<Rightarrow> fetch_outcome" where
  "provider_refuses c =
     Resolved
       \<lparr>ok = False,
        body_text = Inr (ascii ''rate limit exceeded for key sk-test''),
        body_json = Inl SyntaxError\<rparr>"

definition provider_silent :: "fetch_call \<Rightarrow> fetch_outcome" where
  "provider_silent c =
     Resolved
       \<lparr>ok = True,
        body_text = Inr (concat [ascii ''{'', [0x22], ascii ''choices'', [0x22], ascii '':[]}'']),
        body_json = Inr (JObj [(ascii ''choices'', JArr [])])\<rparr>"

text \<open>A provider that answers \<open>{"choices":[{"message":{"content":42}}]}\<close>: a
  success whose content is a number.\<close>

definition provider_number :: "fetch_call \<Rightarrow> fetch_outcome" where
  "provider_number c =
     Resolved
       \<lparr>ok = True,
        body_text =
          Inr (concat [ascii ''{'', [0x22], ascii ''choices'', [0x22], ascii '':[{'', [0x22],
                       ascii ''message'', [0x22], ascii '':{'', [0x22], ascii ''content'', [0x22],
                       ascii '':42}}]}'']),
        body_json =
          Inr (JObj [(ascii ''choices'',
                      JArr [JObj [(ascii ''message'',
                                   JObj [(ascii ''content'', JNum (Finite 42))])]])])\<rparr>"

definition env_with :: "(fetch_call \<Rightarrow> fetch_outcome) \<Rightarrow> env" where
  "env_with provider =
     \<lparr>OPENROUTER_API_KEY = Some (ascii ''sk-test''),
      toLowerCase = toLowerCase_ascii,
      fetch = provider\<rparr>"

definition env_unset :: env where
  "env_unset =
     \<lparr>OPENROUTER_API_KEY = None, toLowerCase = toLowerCase_ascii, fetch = provider_replies\<rparr>"

section \<open>Strings: the operations\<close>

text \<open>The word count of the classifier is the number of spaces of the message plus
  one: leading, trailing and repeated spaces each add an empty piece.\<close>

lemma split_not_Nil: "split s sep \<noteq> []"
  by (induction s) (auto split: list.splits)

lemma length_split: "length (split s sep) = Suc (length (filter (\<lambda>c. c = sep) s))"
proof (induction s)
  case Nil
  show ?case by simp
next
  case (Cons c cs)
  show ?case
  proof (cases "split cs sep")
    case Nil
    with split_not_Nil show ?thesis by blast
  next
    case (Cons t ts)
    with Cons.IH show ?thesis by auto
  qed
qed

lemma slice_list_prefix: "slice_list xs 0 (Some (int n)) = take n xs"
  by (simp add: slice_list_def Let_def min_def)

lemma slice_list_suffix: "0 < n \<Longrightarrow> slice_list xs (- int n) None = drop (length xs - n) xs"
  by (auto simp: slice_list_def Let_def max_def nat_diff_distrib' )

lemma startsWith_prefix: "startsWith s p \<longleftrightarrow> prefix p s"
  unfolding startsWith_def
  by (metis append_eq_conv_conj prefix_def)

lemma includes_str_sublist: "includes_str s p \<longleftrightarrow> sublist p s"
  by (induction s) (simp_all add: sublist_Cons_right startsWith_prefix)

lemma sublist_dropWhile:
  assumes "p \<noteq> []" and "\<not> P (hd p)"
  shows "sublist p (dropWhile P s) \<longleftrightarrow> sublist p s"
proof (induction s)
  case Nil
  show ?case by simp
next
  case (Cons c cs)
  show ?case
  proof (cases "P c")
    case True
    with assms have "\<not> prefix p (c # cs)"
      by (cases p) auto
    with True Cons.IH show ?thesis
      by (simp add: sublist_Cons_right)
  next
    case False
    then show ?thesis by simp
  qed
qed

lemma sublist_trim:
  assumes "p \<noteq> []" and "\<not> isWhiteSpace (hd p)" and "\<not> isWhiteSpace (last p)"
  shows "sublist p (trim s) \<longleftrightarrow> sublist p s"
proof -
  have r: "rev p \<noteq> []" "\<not> isWhiteSpace (hd (rev p))"
    using assms by (simp_all add: hd_rev)
  have "sublist p (trim s) \<longleftrightarrow> sublist (rev p) (dropWhile isWhiteSpace (rev (dropWhile isWhiteSpace s)))"
    unfolding trim_def by (simp add: sublist_rev_right)
  also have "\<dots> \<longleftrightarrow> sublist (rev p) (rev (dropWhile isWhiteSpace s))"
    using sublist_dropWhile [of "rev p" isWhiteSpace] r by simp
  also have "\<dots> \<longleftrightarrow> sublist p (dropWhile isWhiteSpace s)"
    by simp
  also have "\<dots> \<longleftrightarrow> sublist p s"
    using sublist_dropWhile [of p isWhiteSpace] assms(1,2) by simp
  finally show ?thesis .
qed

lemma gdpr_ends: "ascii ''gdpr'' \<noteq> []" "\<not> isWhiteSpace (hd (ascii ''gdpr''))" "\<not> isWhiteSpace (last (ascii ''gdpr''))"
  by (simp_all add: ascii_def isWhiteSpace_def)

lemma gdpr_mem: "ascii ''gdpr'' \<in> set complexPatterns"
  by (simp add: complexPatterns_def)

section \<open>The classifier: its three rules\<close>

lemma ascii_space: "ascii '' '' = [0x20]"
  by (simp add: ascii_def)

lemma simplePatterns_set:
  "set simplePatterns =
     ascii ` {''hi'', ''hello'', ''hey'', ''thanks'', ''thank you'', ''ok'', ''okay'',
              ''yes'', ''no'', ''sure'', ''great'', ''awesome'', ''cool'', ''got it''}"
  by (simp add: simplePatterns_def)

lemma detectComplexity_Simple_iff:
  "detectComplexity lc message history = Simple \<longleftrightarrow>
     (\<exists>p\<in>set simplePatterns.
        trim (lc message) = p \<or> prefix (p @ [0x20]) (trim (lc message)))
     \<or> length (split message 0x20) \<le> 4"
  by (simp add: detectComplexity_def Let_def list_ex_iff startsWith_prefix ascii_space)

lemma detectComplexity_not_Simple:
  assumes "detectComplexity lc message history \<noteq> Simple"
  shows "detectComplexity lc message history =
     (if (\<exists>p\<in>set complexPatterns. sublist p (trim (lc message)))
          \<or> 25 < length (split message 0x20) \<or> 8 < length history
      then Complex else Medium)"
  using assms
  by (simp add: detectComplexity_def Let_def list_ex_iff includes_str_sublist split: if_splits)

text \<open>
  Claim C2. Whenever the lower-cased and trimmed text is one of the fourteen
  greeting tokens, or starts with one of them followed by a space, or the message
  splits on single spaces into at most four pieces (empty pieces counted), the
  classifier returns \<open>simple\<close>, whatever the history and whatever else the message
  contains.
\<close>

theorem detectComplexity_simple_rule:
  assumes "(\<exists>p \<in> ascii ` {''hi'', ''hello'', ''hey'', ''thanks'', ''thank you'', ''ok'', ''okay'',
                         ''yes'', ''no'', ''sure'', ''great'', ''awesome'', ''cool'', ''got it''}.
              trim (lc message) = p \<or> prefix (p @ [0x20]) (trim (lc message)))
           \<or> length (split message 0x20) \<le> 4"
  shows "detectComplexity lc message history = Simple"
  using assms unfolding detectComplexity_Simple_iff simplePatterns_set .

text \<open>The rule at a greeting of seven words that names two of the complex
  substrings, after nine turns, and at a message of three words that names one.\<close>

theorem detectComplexity_simple_rule_witness:
  "prefix (ascii ''ok'' @ [0x20])
     (trim (toLowerCase_ascii (ascii ''OK please integrate the API with gdpr''))) \<and>
   sublist (ascii ''gdpr'')
     (trim (toLowerCase_ascii (ascii ''OK please integrate the API with gdpr''))) \<and>
   detectComplexity toLowerCase_ascii (ascii ''OK please integrate the API with gdpr'')
     (replicate 9 JNull) = Simple \<and>
   length (split (ascii ''gdpr compliance please'') 0x20) \<le> 4 \<and>
   detectComplexity toLowerCase_ascii (ascii ''gdpr compliance please'') (replicate 9 JNull)
     = Simple"
proof -
  have t: "trim (toLowerCase_ascii (ascii ''OK please integrate the API with gdpr'')) =
           ascii ''ok please integrate the api with gdpr''"
    by code_simp
  have h: "prefix (ascii ''ok'' @ [0x20])
             (trim (toLowerCase_ascii (ascii ''OK please integrate the API with gdpr'')))"
    unfolding t by (simp add: ascii_def)
  have s: "sublist (ascii ''gdpr'')
             (trim (toLowerCase_ascii (ascii ''OK please integrate the API with gdpr'')))"
    unfolding t by code_simp
  have w: "length (split (ascii ''gdpr compliance please'') 0x20) \<le> 4"
    by code_simp
  from h have
    "detectComplexity toLowerCase_ascii (ascii ''OK please integrate the API with gdpr'')
       (replicate 9 JNull) = Simple"
    by (intro detectComplexity_simple_rule) blast
  moreover from w have
    "detectComplexity toLowerCase_ascii (ascii ''gdpr compliance please'') (replicate 9 JNull)
       = Simple"
    by (intro detectComplexity_simple_rule) blast
  ultimately show ?thesis
    using h s w by simp
qed

text \<open>
  Claim C3, as stated, fails: a message that contains \<open>gdpr\<close> and has more than four
  words is classified \<open>simple\<close> when it starts with a greeting token and a space,
  since the greeting test of line 67 comes first.
\<close>

theorem detectComplexity_gdpr_counterexample:
  "sublist (ascii ''gdpr'') (toLowerCase_ascii (ascii ''ok what about GDPR compliance stuff'')) \<and>
   4 < length (split (ascii ''ok what about GDPR compliance stuff'') 0x20) \<and>
   detectComplexity toLowerCase_ascii (ascii ''ok what about GDPR compliance stuff'')
     ([] :: jsval list) = Simple"
  by code_simp

text \<open>
  Claim C3, amended. A message whose lower-cased text contains \<open>gdpr\<close>, that has
  more than four words, and whose lower-cased, trimmed text neither is a greeting
  token nor starts with one followed by a space, is classified \<open>complex\<close>, for every
  history.
\<close>

theorem detectComplexity_gdpr:
  assumes "sublist (ascii ''gdpr'') (lc message)"
    and "4 < length (split message 0x20)"
    and "\<not> (\<exists>p\<in>set simplePatterns.
               trim (lc message) = p \<or> prefix (p @ [0x20]) (trim (lc message)))"
  shows "detectComplexity lc message history = Complex"
proof -
  have "detectComplexity lc message history \<noteq> Simple"
    using assms(2,3) unfolding detectComplexity_Simple_iff by simp
  moreover have "sublist (ascii ''gdpr'') (trim (lc message))"
    using assms(1) by (simp add: sublist_trim [OF gdpr_ends])
  ultimately show ?thesis
    using gdpr_mem by (auto simp: detectComplexity_not_Simple)
qed

theorem detectComplexity_gdpr_witness:
  "sublist (ascii ''gdpr'') (toLowerCase_ascii (ascii ''Tell me about GDPR and data'')) \<and>
   4 < length (split (ascii ''Tell me about GDPR and data'') 0x20) \<and>
   \<not> (\<exists>p\<in>set simplePatterns.
         trim (toLowerCase_ascii (ascii ''Tell me about GDPR and data'')) = p \<or>
         prefix (p @ [0x20]) (trim (toLowerCase_ascii (ascii ''Tell me about GDPR and data'')))) \<and>
   detectComplexity toLowerCase_ascii (ascii ''Tell me about GDPR and data'') ([] :: jsval list)
     = Complex"
proof -
  have a: "sublist (ascii ''gdpr'') (toLowerCase_ascii (ascii ''Tell me about GDPR and data''))"
    by code_simp
  have b: "4 < length (split (ascii ''Tell me about GDPR and data'') 0x20)"
    by code_simp
  have c: "\<not> (\<exists>p\<in>set simplePatterns.
         trim (toLowerCase_ascii (ascii ''Tell me about GDPR and data'')) = p \<or>
         prefix (p @ [0x20]) (trim (toLowerCase_ascii (ascii ''Tell me about GDPR and data''))))"
    by code_simp
  from detectComplexity_gdpr
         [where lc = toLowerCase_ascii and message = "ascii ''Tell me about GDPR and data''"
            and history = "[] :: jsval list", OF a b c] a b c
  show ?thesis
    by blast
qed

text \<open>
  Claim C7. For a history of more than eight turns and a message of five to
  twenty-five words that is no greeting and contains none of the complex
  substrings, the classifier returns \<open>complex\<close>; the same message with a history of
  at most eight turns is \<open>medium\<close>, so it is the length of the history that decides.
\<close>

theorem detectComplexity_long_history:
  assumes "8 < length (history :: 'a list)"
    and "5 \<le> length (split message 0x20)" and "length (split message 0x20) \<le> 25"
    and "\<not> (\<exists>p\<in>set simplePatterns.
               trim (lc message) = p \<or> prefix (p @ [0x20]) (trim (lc message)))"
    and "\<not> (\<exists>p\<in>set complexPatterns. sublist p (trim (lc message)))"
  shows "detectComplexity lc message history = Complex \<and>
         (\<forall>shorter :: 'a list. length shorter \<le> 8 \<longrightarrow>
            detectComplexity lc message shorter = Medium)"
proof -
  have ns: "detectComplexity lc message h \<noteq> Simple" for h :: "'a list"
    using assms(2,4) unfolding detectComplexity_Simple_iff by simp
  have "detectComplexity lc message history = Complex"
    using assms(1) by (simp add: detectComplexity_not_Simple [OF ns [of history]])
  moreover have "detectComplexity lc message shorter = Medium"
    if "length shorter \<le> 8" for shorter :: "'a list"
    using that assms(3,5) by (simp add: detectComplexity_not_Simple [OF ns [of shorter]])
  ultimately show ?thesis by blast
qed

theorem detectComplexity_long_history_witness:
  "8 < length (replicate 9 JNull) \<and>
   length (split (ascii ''what does the monthly retainer cover'') 0x20) = 6 \<and>
   detectComplexity toLowerCase_ascii (ascii ''what does the monthly retainer cover'')
     (replicate 9 JNull) = Complex \<and>
   detectComplexity toLowerCase_ascii (ascii ''what does the monthly retainer cover'')
     (replicate 8 JNull) = Medium"
proof -
  have a: "8 < length (replicate 9 JNull)"
    by simp
  have w: "length (split (ascii ''what does the monthly retainer cover'') 0x20) = 6"
    by code_simp
  have b: "5 \<le> length (split (ascii ''what does the monthly retainer cover'') 0x20)"
    and c: "length (split (ascii ''what does the monthly retainer cover'') 0x20) \<le> 25"
    using w by simp_all
  have d: "\<not> (\<exists>p\<in>set simplePatterns.
         trim (toLowerCase_ascii (ascii ''what does the monthly retainer cover'')) = p \<or>
         prefix (p @ [0x20])
           (trim (toLowerCase_ascii (ascii ''what does the monthly retainer cover''))))"
    by code_simp
  have e: "\<not> (\<exists>p\<in>set complexPatterns.
         sublist p (trim (toLowerCase_ascii (ascii ''what does the monthly retainer cover''))))"
    by code_simp
  from detectComplexity_long_history
         [where lc = toLowerCase_ascii
            and message = "ascii ''what does the monthly retainer cover''"
            and history = "replicate 9 JNull", OF a b c d e] a w
  show ?thesis
    by simp
qed

text \<open>
  Claim C9. The classifier of \<open>api/chat.js\<close> and the classifier of the second
  source file return the same tier on every message and history.
\<close>

theorem detectComplexity_part_000_eq:
  "detectComplexity_part_000 lc message history = detectComplexity lc message history"
proof -
  have s: "simplePatterns_part_000 = simplePatterns"
    by (simp only: simplePatterns_part_000_def simplePatterns_def)
  have c: "complexPatterns_part_000 = complexPatterns"
    by (simp only: complexPatterns_part_000_def complexPatterns_def)
  show ?thesis
    by (simp only: detectComplexity_part_000_def detectComplexity_def s c)
qed

text \<open>Both classifiers at a message of six words without history.\<close>

theorem detectComplexity_part_000_eq_witness:
  "detectComplexity_part_000 toLowerCase_ascii (ascii ''what does the monthly retainer cover'')
     ([] :: jsval list) = Medium \<and>
   detectComplexity toLowerCase_ascii (ascii ''what does the monthly retainer cover'')
     ([] :: jsval list) = Medium"
proof -
  have "detectComplexity toLowerCase_ascii (ascii ''what does the monthly retainer cover'')
     ([] :: jsval list) = Medium"
    by code_simp
  with detectComplexity_part_000_eq
         [of toLowerCase_ascii "ascii ''what does the monthly retainer cover''" "[] :: jsval list"]
  show ?thesis by simp
qed

section \<open>JavaScript values: the operations\<close>

lemma valid_message: "\<not> (falsy v \<or> typeof v \<noteq> ascii ''string'') \<longleftrightarrow> (\<exists>s. s \<noteq> [] \<and> v = JStr s)"
  by (cases v) (auto simp: ascii_def)

lemma destructure_Inr:
  "destructure b = Inr (m, h) \<longleftrightarrow>
     getMember b (ascii ''message'') = Inr m \<and>
     (\<exists>v. getMember b (ascii ''history'') = Inr v \<and> h = (if v = JUndefined then JArr [] else v))"
  by (auto simp: destructure_def split: sum.splits)

lemma map_throwing_Inr:
  "map_throwing f xs = Inr ys \<longleftrightarrow> list_all2 (\<lambda>x y. f x = Inr y) xs ys"
proof (induction xs arbitrary: ys)
  case Nil
  show ?case by auto
next
  case (Cons x xs)
  show ?case
    by (cases ys) (auto simp: Cons.IH [symmetric] split: sum.splits)
qed

lemma map_throwing_total:
  assumes "\<forall>x\<in>set xs. \<exists>y. f x = Inr y"
  shows "\<exists>ys. map_throwing f xs = Inr ys"
  using assms by (induction xs) auto

lemma toChatMessage_Inr:
  "toChatMessage m = Inr u \<longleftrightarrow>
     (\<exists>s t. getMember m (ascii ''sender'') = Inr s \<and> getMember m (ascii ''text'') = Inr t \<and>
        u = \<lparr>role = (if s = JStr (ascii ''user'') then User else Assistant), content = t\<rparr>)"
  by (auto simp: toChatMessage_def split: sum.splits)

lemma toChatMessage_total:
  assumes "h \<noteq> JNull" and "h \<noteq> JUndefined"
  shows "\<exists>u. toChatMessage h = Inr u"
  using assms by (cases h) (simp_all add: toChatMessage_def)

section \<open>The handler: its paths\<close>

lemma messages_buildCall:
  "messages (buildCall key mdl chatHistory sanitized) =
     \<lparr>role = System, content = JStr SYSTEM_PROMPT\<rparr> # chatHistory @
     [\<lparr>role = User, content = JStr sanitized\<rparr>]"
  by (simp add: buildCall_def)

lemma model_buildCall: "model (buildCall key mdl chatHistory sanitized) = mdl"
  by (simp add: buildCall_def)

lemma response_caught:
  "response (caught c logged err) =
     \<lparr>status = 500,
      json = JObj [(ascii ''error'', JStr (ascii ''Something went wrong. Please try again.''))]\<rparr>"
  by (simp add: caught_def error_body_def)

lemma tryBlock_cases:
  obtains (failed) logged err where "tryBlock e t mdl c = caught c logged err"
  | (replied) reply where
      "tryBlock e t mdl c =
         \<lparr>response =
            \<lparr>status = 200,
             json = JObj [(ascii ''reply'', reply), (ascii ''model'', JStr mdl),
                          (ascii ''complexity'', JStr (tier_name t))]\<rparr>,
          calls = [c], logs = []\<rparr>"
proof (cases "fetch e c")
  case (Rejected err)
  then have "tryBlock e t mdl c = caught c [] err"
    by (simp add: tryBlock_def)
  then show thesis by (rule failed)
next
  case (Resolved resp)
  show thesis
  proof (cases "ok resp")
    case False
    with Resolved show thesis
      by (cases "body_text resp") (auto simp: tryBlock_def intro: failed)
  next
    case True
    show thesis
    proof (cases "body_json resp")
      case (Inl err)
      with Resolved True show thesis
        by (auto simp: tryBlock_def intro: failed)
    next
      case (Inr data)
      show thesis
      proof (cases "extractReply data")
        case (Inl err)
        with Resolved True Inr show thesis
          by (auto simp: tryBlock_def intro: failed)
      next
        case reply: (Inr reply)
        with Resolved True Inr show thesis
          by (cases "falsy reply") (auto simp: tryBlock_def intro: failed replied)
      qed
    qed
  qed
qed

lemma calls_tryBlock: "calls (tryBlock e t m c) = [c]"
  by (simp add: tryBlock_def caught_def split: fetch_outcome.splits sum.splits)

lemma tryBlock_failure:
  assumes "fetch e c = Resolved resp"
    and "\<not> ok resp \<or>
         (case body_json resp of
            Inl err \<Rightarrow> True
          | Inr data \<Rightarrow> (case extractReply data of Inl err \<Rightarrow> True | Inr reply \<Rightarrow> falsy reply))"
  shows "response (tryBlock e t mdl c) =
     \<lparr>status = 500,
      json = JObj [(ascii ''error'', JStr (ascii ''Something went wrong. Please try again.''))]\<rparr>"
proof (cases "ok resp")
  case False
  then show ?thesis
    by (cases "body_text resp") (simp_all add: tryBlock_def assms(1) response_caught)
next
  case True
  show ?thesis
  proof (cases "body_json resp")
    case (Inl err)
    with True show ?thesis
      by (simp add: tryBlock_def assms(1) response_caught)
  next
    case (Inr data)
    show ?thesis
    proof (cases "extractReply data")
      case (Inl err)
      with True Inr show ?thesis
        by (simp add: tryBlock_def assms(1) response_caught)
    next
      case reply: (Inr reply)
      with True Inr assms(2) have "falsy reply" by simp
      with True Inr reply show ?thesis
        by (simp add: tryBlock_def assms(1) response_caught)
    qed
  qed
qed

lemma tryBlock_status_not_400: "status (response (tryBlock e t mdl c)) \<noteq> 400"
  by (cases rule: tryBlock_cases [of e t mdl c]) (simp_all add: response_caught)

lemma tryBlock_success:
  assumes "status (response (tryBlock e t mdl c)) = 200"
  shows "\<exists>reply. json (response (tryBlock e t mdl c)) =
           JObj [(ascii ''reply'', reply), (ascii ''model'', JStr mdl),
                 (ascii ''complexity'', JStr (tier_name t))]"
  using assms by (cases rule: tryBlock_cases [of e t mdl c]) (simp_all add: response_caught)

lemma handler_call_made:
  assumes "handler e req = Inr r" and "calls r \<noteq> []"
  obtains key msg hist chatHistory where
    "method req = ascii ''POST''" and "OPENROUTER_API_KEY e = Some key" and "key \<noteq> []"
    and "destructure (body req) = Inr (JStr msg, JArr hist)" and "msg \<noteq> []"
    and "map_throwing toChatMessage (slice_list hist (- 6) None) = Inr chatHistory"
    and "r = tryBlock e (detectComplexity (toLowerCase e) (slice_list msg 0 (Some 500)) hist)
               (MODELS (detectComplexity (toLowerCase e) (slice_list msg 0 (Some 500)) hist))
               (buildCall key (MODELS (detectComplexity (toLowerCase e) (slice_list msg 0 (Some 500)) hist))
                  chatHistory (slice_list msg 0 (Some 500)))"
proof -
  from assms(1) have post: "method req = ascii ''POST''"
    using assms(2) by (auto simp: handler_def respond_def split: if_splits)
  from assms obtain key where key: "OPENROUTER_API_KEY e = Some key" "key \<noteq> []"
    by (auto simp: handler_def respond_def post split: option.splits if_splits)
  from assms obtain message history where d: "destructure (body req) = Inr (message, history)"
    by (auto simp: handler_def post key split: sum.splits)
  from assms have ok: "\<not> (falsy message \<or> typeof message \<noteq> ascii ''string'')"
    by (auto simp: handler_def post key d respond_def split: if_splits)
  then obtain msg where msg: "message = JStr msg" "msg \<noteq> []"
    unfolding valid_message by blast
  from assms(1) obtain hist where hist: "history = JArr hist"
    using ok by (cases history) (simp_all add: handler_def post key d msg)
  from assms(1) obtain chatHistory where
    ch: "map_throwing toChatMessage (slice_list hist (- 6) None) = Inr chatHistory"
    using ok by (auto simp: handler_def post key d msg hist Let_def split: sum.splits)
  from assms(1) have
    "r = tryBlock e (detectComplexity (toLowerCase e) (slice_list msg 0 (Some 500)) hist)
               (MODELS (detectComplexity (toLowerCase e) (slice_list msg 0 (Some 500)) hist))
               (buildCall key (MODELS (detectComplexity (toLowerCase e) (slice_list msg 0 (Some 500)) hist))
                  chatHistory (slice_list msg 0 (Some 500)))"
    using ok by (simp add: handler_def post key d msg hist ch Let_def)
  with that post key d msg hist ch show thesis by blast
qed

lemma handler_valid:
  assumes "method req = ascii ''POST''" and "OPENROUTER_API_KEY e = Some key" and "key \<noteq> []"
    and "destructure (body req) = Inr (JStr msg, JArr hist)" and "msg \<noteq> []"
    and "map_throwing toChatMessage (slice_list hist (- 6) None) = Inr chatHistory"
  shows "handler e req =
     Inr (tryBlock e (detectComplexity (toLowerCase e) (slice_list msg 0 (Some 500)) hist)
            (MODELS (detectComplexity (toLowerCase e) (slice_list msg 0 (Some 500)) hist))
            (buildCall key (MODELS (detectComplexity (toLowerCase e) (slice_list msg 0 (Some 500)) hist))
               chatHistory (slice_list msg 0 (Some 500))))"
proof -
  have "\<not> (falsy (JStr msg) \<or> typeof (JStr msg) \<noteq> ascii ''string'')"
    using assms(5) by simp
  then show ?thesis
    by (simp add: handler_def assms(1,2,3,4,6) Let_def del: falsy.simps typeof.simps)
qed

section \<open>The examples\<close>

lemma post_chat_fields:
  "method (post_chat msg hist) = ascii ''POST''"
  "getMember (body (post_chat msg hist)) (ascii ''message'') = Inr (JStr msg)"
  "getMember (body (post_chat msg hist)) (ascii ''history'') = Inr (JArr hist)"
  by (simp_all add: post_chat_def ascii_def)

lemma env_with_fields:
  "OPENROUTER_API_KEY (env_with provider) = Some (ascii ''sk-test'')"
  "ascii ''sk-test'' \<noteq> []"
  "fetch (env_with provider) = provider"
  "toLowerCase (env_with provider) = toLowerCase_ascii"
  by (simp_all add: env_with_def ascii_def)

lemma handler_post_chat:
  assumes "msg \<noteq> []"
    and "map_throwing toChatMessage (slice_list hist (- 6) None) = Inr chatHistory"
  shows "\<exists>t. handler (env_with provider) (post_chat msg hist) =
           Inr (tryBlock (env_with provider) t (MODELS t)
                  (buildCall (ascii ''sk-test'') (MODELS t) chatHistory
                     (slice_list msg 0 (Some 500))))"
proof -
  have d: "destructure (body (post_chat msg hist)) = Inr (JStr msg, JArr hist)"
    by (simp add: destructure_Inr post_chat_fields)
  show ?thesis
    using handler_valid [OF post_chat_fields(1) env_with_fields(1,2) d assms] by blast
qed

lemma chatHistory_ten_turns:
  "map_throwing toChatMessage (slice_list ten_turns (- 6) None) =
     Inr [\<lparr>role = User, content = JStr (ascii ''q3'')\<rparr>,
          \<lparr>role = Assistant, content = JStr (ascii ''a3'')\<rparr>,
          \<lparr>role = User, content = JStr (ascii ''q4'')\<rparr>,
          \<lparr>role = Assistant, content = JStr (ascii ''a4'')\<rparr>,
          \<lparr>role = User, content = JStr (ascii ''q5'')\<rparr>,
          \<lparr>role = Assistant, content = JStr (ascii ''a5'')\<rparr>]"
  by (simp add: ten_turns_def slice_list_def turn_def toChatMessage_def ascii_def)

lemma retainer_question: "ascii ''What does the monthly retainer cover'' \<noteq> []"
  by (simp add: ascii_def)

lemma ten_turns_objects:
  "\<forall>h\<in>set (drop (length ten_turns - 6) ten_turns). h \<noteq> JNull \<and> h \<noteq> JUndefined"
  by (simp add: ten_turns_def turn_def)

lemma tryBlock_provider_replies:
  "tryBlock (env_with provider_replies) t mdl c =
     \<lparr>response =
        \<lparr>status = 200,
         json = JObj [(ascii ''reply'', JStr (ascii ''Happy to help.'')),
                      (ascii ''model'', JStr mdl),
                      (ascii ''complexity'', JStr (tier_name t))]\<rparr>,
      calls = [c], logs = []\<rparr>"
  by (simp add: tryBlock_def env_with_def provider_replies_def extractReply_def nullish_def
      ascii_def)

lemma extractReply_no_choices:
  "extractReply (JObj [(ascii ''choices'', JArr [])]) = Inr JUndefined"
  by (simp add: extractReply_def nullish_def)

section \<open>The handler: what it sends and what it answers\<close>

text \<open>
  Claim C5. A request whose method is not \<open>POST\<close> is answered with status 405
  and \<open>{error: "Method not allowed"}\<close>, whatever the credential and the body; a
  \<open>POST\<close> request without a credential is answered with status 500 and
  \<open>{error: "API key not configured"}\<close>, whatever the body. In both cases no call
  is made to the provider and nothing is logged.
\<close>

theorem method_and_credential_checks:
  "(method req \<noteq> ascii ''POST'' \<longrightarrow>
      handler e req =
        Inr \<lparr>response =
               \<lparr>status = 405, json = JObj [(ascii ''error'', JStr (ascii ''Method not allowed''))]\<rparr>,
             calls = [], logs = []\<rparr>) \<and>
   (method req = ascii ''POST'' \<and>
    (OPENROUTER_API_KEY e = None \<or> OPENROUTER_API_KEY e = Some []) \<longrightarrow>
      handler e req =
        Inr \<lparr>response =
               \<lparr>status = 500,
                json = JObj [(ascii ''error'', JStr (ascii ''API key not configured''))]\<rparr>,
             calls = [], logs = []\<rparr>)"
  by (auto simp: handler_def respond_def error_body_def)

text \<open>Without a credential: a \<open>GET\<close> request, and two \<open>POST\<close> requests whose
  bodies have no valid message or are missing.\<close>

theorem method_and_credential_checks_witness:
  "handler env_unset \<lparr>method = ascii ''GET'', body = JObj [(ascii ''message'', JNum (Finite 5))]\<rparr> =
     Inr \<lparr>response =
            \<lparr>status = 405, json = JObj [(ascii ''error'', JStr (ascii ''Method not allowed''))]\<rparr>,
          calls = [], logs = []\<rparr> \<and>
   handler env_unset \<lparr>method = ascii ''POST'', body = JObj [(ascii ''message'', JNum (Finite 5))]\<rparr> =
     Inr \<lparr>response =
            \<lparr>status = 500,
             json = JObj [(ascii ''error'', JStr (ascii ''API key not configured''))]\<rparr>,
          calls = [], logs = []\<rparr> \<and>
   handler env_unset \<lparr>method = ascii ''POST'', body = JUndefined\<rparr> =
     Inr \<lparr>response =
            \<lparr>status = 500,
             json = JObj [(ascii ''error'', JStr (ascii ''API key not configured''))]\<rparr>,
          calls = [], logs = []\<rparr>"
proof -
  have g: "ascii ''GET'' \<noteq> ascii ''POST''"
    by (simp add: ascii_def)
  have k: "OPENROUTER_API_KEY env_unset = None"
    by (simp add: env_unset_def)
  show ?thesis
    using method_and_credential_checks [of "\<lparr>method = ascii ''GET'', body = JObj [(ascii ''message'', JNum (Finite 5))]\<rparr>" env_unset]
      method_and_credential_checks [of "\<lparr>method = ascii ''POST'', body = JObj [(ascii ''message'', JNum (Finite 5))]\<rparr>" env_unset]
      method_and_credential_checks [of "\<lparr>method = ascii ''POST'', body = JUndefined\<rparr>" env_unset]
      g k
    by simp
qed

text \<open>
  Claim C8, as stated, fails: the empty string is present and is a string, and the
  test \<open>!message\<close> of line 97 answers it with status 400.
\<close>

theorem empty_message_400_counterexample:
  "typeof (JStr []) = ascii ''string'' \<and>
   getMember (body (post_chat [] [])) (ascii ''message'') = Inr (JStr []) \<and>
   handler (env_with provider_replies) (post_chat [] []) =
     Inr \<lparr>response =
            \<lparr>status = 400, json = JObj [(ascii ''error'', JStr (ascii ''Invalid message''))]\<rparr>,
          calls = [], logs = []\<rparr>"
  by (simp add: handler_def env_with_def post_chat_def destructure_def respond_def
      error_body_def ascii_def)

text \<open>
  Claim C8, amended. For a \<open>POST\<close> request with a credential and a body that is
  neither \<open>undefined\<close> nor \<open>null\<close>: when the message is a non-empty string, the
  handler does not answer with status 400; in every other case (no message, a
  message that is no string, the empty string) it answers with status 400 and
  \<open>{error: "Invalid message"}\<close>, without a call to the provider.
\<close>

theorem invalid_message_400:
  assumes "method req = ascii ''POST''" and "OPENROUTER_API_KEY e = Some key" and "key \<noteq> []"
    and "body req \<noteq> JUndefined" and "body req \<noteq> JNull"
  shows "(if \<exists>msg. msg \<noteq> [] \<and> getMember (body req) (ascii ''message'') = Inr (JStr msg)
          then \<forall>r. handler e req = Inr r \<longrightarrow> status (response r) \<noteq> 400
          else handler e req =
                 Inr \<lparr>response =
                        \<lparr>status = 400,
                         json = JObj [(ascii ''error'', JStr (ascii ''Invalid message''))]\<rparr>,
                      calls = [], logs = []\<rparr>)"
proof -
  from assms(4,5) obtain message history where
    d: "destructure (body req) = Inr (message, history)"
    and m: "getMember (body req) (ascii ''message'') = Inr message"
    by (cases "body req") (simp_all add: destructure_def)
  show ?thesis
  proof (cases "\<exists>msg. msg \<noteq> [] \<and> message = JStr msg")
    case True
    then obtain msg where msg: "msg \<noteq> []" "message = JStr msg" by blast
    have "status (response r) \<noteq> 400" if "handler e req = Inr r" for r
      using that
      by (auto simp: handler_def assms(1,2,3) d msg Let_def tryBlock_status_not_400
          split: sum.splits jsval.splits)
    with True m show ?thesis by auto
  next
    case False
    then have "falsy message \<or> typeof message \<noteq> ascii ''string''"
      using valid_message by blast
    then have "handler e req = Inr (respond 400 (error_body ''Invalid message''))"
      by (simp add: handler_def assms(1,2,3) d)
    with False m show ?thesis
      by (simp add: respond_def error_body_def)
  qed
qed

text \<open>A body without a message, a message that is a number, and the message
  \<open>hello\<close>.\<close>

theorem invalid_message_400_witness:
  "handler (env_with provider_replies)
     \<lparr>method = ascii ''POST'', body = JObj [(ascii ''history'', JArr [])]\<rparr> =
     Inr \<lparr>response =
            \<lparr>status = 400, json = JObj [(ascii ''error'', JStr (ascii ''Invalid message''))]\<rparr>,
          calls = [], logs = []\<rparr> \<and>
   handler (env_with provider_replies)
     \<lparr>method = ascii ''POST'', body = JObj [(ascii ''message'', JNum (Finite 5))]\<rparr> =
     Inr \<lparr>response =
            \<lparr>status = 400, json = JObj [(ascii ''error'', JStr (ascii ''Invalid message''))]\<rparr>,
          calls = [], logs = []\<rparr> \<and>
   (\<exists>r. handler (env_with provider_replies) (post_chat (ascii ''hello'') []) = Inr r \<and>
        status (response r) \<noteq> 400)"
proof -
  have a: "handler (env_with provider_replies)
     \<lparr>method = ascii ''POST'', body = JObj [(ascii ''history'', JArr [])]\<rparr> =
     Inr \<lparr>response =
            \<lparr>status = 400, json = JObj [(ascii ''error'', JStr (ascii ''Invalid message''))]\<rparr>,
          calls = [], logs = []\<rparr>"
    using invalid_message_400 [of "\<lparr>method = ascii ''POST'', body = JObj [(ascii ''history'', JArr [])]\<rparr>"
        "env_with provider_replies" "ascii ''sk-test''"]
    by (simp add: env_with_fields ascii_def)
  have b: "handler (env_with provider_replies)
     \<lparr>method = ascii ''POST'', body = JObj [(ascii ''message'', JNum (Finite 5))]\<rparr> =
     Inr \<lparr>response =
            \<lparr>status = 400, json = JObj [(ascii ''error'', JStr (ascii ''Invalid message''))]\<rparr>,
          calls = [], logs = []\<rparr>"
    using invalid_message_400 [of "\<lparr>method = ascii ''POST'', body = JObj [(ascii ''message'', JNum (Finite 5))]\<rparr>"
        "env_with provider_replies" "ascii ''sk-test''"]
    by (simp add: env_with_fields ascii_def)
  have n: "ascii ''hello'' \<noteq> []"
    by (simp add: ascii_def)
  have e: "map_throwing toChatMessage (slice_list [] (- 6) None) = Inr []"
    by (simp add: slice_list_def)
  obtain r where r: "handler (env_with provider_replies) (post_chat (ascii ''hello'') []) = Inr r"
    using handler_post_chat [OF n e] by blast
  have "body (post_chat (ascii ''hello'') []) \<noteq> JUndefined"
    and "body (post_chat (ascii ''hello'') []) \<noteq> JNull"
    by (simp_all add: post_chat_def)
  from invalid_message_400 [OF post_chat_fields(1) env_with_fields(1,2) this, of provider_replies] n r
  have "status (response r) \<noteq> 400"
    by (simp add: post_chat_fields split: if_splits)
  with a b r show ?thesis by blast
qed

text \<open>
  Claim C1. Whenever the handler calls the provider, the message is a string and
  the call carries, in this order: one system message with the persona prompt; one
  message for each of the last six elements of the history (all of them when there
  are fewer), in their order, with role \<open>user\<close> when the element's \<open>sender\<close> is
  the string \<open>user\<close> and role \<open>assistant\<close> otherwise, and the element's \<open>text\<close> as
  content; one user message whose content is the first 500 code units of the
  message.
\<close>

theorem outbound_messages:
  assumes "handler e req = Inr r" and "calls r \<noteq> []"
  shows "\<exists>msg hist mid c.
     getMember (body req) (ascii ''message'') = Inr (JStr msg) \<and>
     (getMember (body req) (ascii ''history'') = Inr (JArr hist) \<or>
      getMember (body req) (ascii ''history'') = Inr JUndefined \<and> hist = []) \<and>
     calls r = [c] \<and>
     messages c =
       \<lparr>role = System, content = JStr SYSTEM_PROMPT\<rparr> # mid @
       [\<lparr>role = User, content = JStr (take 500 msg)\<rparr>] \<and>
     list_all2
       (\<lambda>h m. role m = (if getMember h (ascii ''sender'') = Inr (JStr (ascii ''user''))
                         then User else Assistant) \<and>
              getMember h (ascii ''text'') = Inr (content m))
       (drop (length hist - 6) hist) mid"
proof -
  from assms obtain key msg hist chatHistory where
    d: "destructure (body req) = Inr (JStr msg, JArr hist)"
    and ch: "map_throwing toChatMessage (slice_list hist (- 6) None) = Inr chatHistory"
    and r: "r = tryBlock e (detectComplexity (toLowerCase e) (slice_list msg 0 (Some 500)) hist)
               (MODELS (detectComplexity (toLowerCase e) (slice_list msg 0 (Some 500)) hist))
               (buildCall key (MODELS (detectComplexity (toLowerCase e) (slice_list msg 0 (Some 500)) hist))
                  chatHistory (slice_list msg 0 (Some 500)))"
    by (rule handler_call_made)
  have s500: "slice_list msg 0 (Some 500) = take 500 msg"
    using slice_list_prefix [of msg 500] by simp
  have s6: "slice_list hist (- 6) None = drop (length hist - 6) hist"
    using slice_list_suffix [of 6 hist] by simp
  from d have m: "getMember (body req) (ascii ''message'') = Inr (JStr msg)"
    and h: "getMember (body req) (ascii ''history'') = Inr (JArr hist) \<or>
      getMember (body req) (ascii ''history'') = Inr JUndefined \<and> hist = []"
    by (auto simp: destructure_Inr split: if_splits)
  from ch have "list_all2 (\<lambda>h m. toChatMessage h = Inr m) (drop (length hist - 6) hist) chatHistory"
    by (simp add: map_throwing_Inr s6)
  then have l: "list_all2
       (\<lambda>h m. role m = (if getMember h (ascii ''sender'') = Inr (JStr (ascii ''user''))
                         then User else Assistant) \<and>
              getMember h (ascii ''text'') = Inr (content m))
       (drop (length hist - 6) hist) chatHistory"
    by (rule list_all2_mono) (auto simp: toChatMessage_Inr)
  show ?thesis
    using m h l by (auto simp: r calls_tryBlock messages_buildCall s500)
qed

text \<open>A request with ten turns of history, answered by a provider that replies:
  the roles and the contents of the eight messages sent.\<close>

theorem outbound_messages_witness:
  "\<exists>r c. handler (env_with provider_replies)
            (post_chat (ascii ''What does the monthly retainer cover'') ten_turns) = Inr r \<and>
     calls r = [c] \<and>
     map role (messages c) = [System, User, Assistant, User, Assistant, User, Assistant, User] \<and>
     map content (messages c) =
       [JStr SYSTEM_PROMPT, JStr (ascii ''q3''), JStr (ascii ''a3''), JStr (ascii ''q4''),
        JStr (ascii ''a4''), JStr (ascii ''q5''), JStr (ascii ''a5''),
        JStr (ascii ''What does the monthly retainer cover'')]"
proof -
  obtain r where h: "handler (env_with provider_replies)
            (post_chat (ascii ''What does the monthly retainer cover'') ten_turns) = Inr r"
    and c: "calls r \<noteq> []"
    using handler_post_chat [OF retainer_question chatHistory_ten_turns, of provider_replies]
    by (auto simp: calls_tryBlock)
  from outbound_messages [OF h c] obtain msg hist mid c where
    m: "getMember (body (post_chat (ascii ''What does the monthly retainer cover'') ten_turns))
          (ascii ''message'') = Inr (JStr msg)"
    and hi: "getMember (body (post_chat (ascii ''What does the monthly retainer cover'') ten_turns))
          (ascii ''history'') = Inr (JArr hist) \<or>
        getMember (body (post_chat (ascii ''What does the monthly retainer cover'') ten_turns))
          (ascii ''history'') = Inr JUndefined \<and> hist = []"
    and cs: "calls r = [c]"
    and ms: "messages c =
       \<lparr>role = System, content = JStr SYSTEM_PROMPT\<rparr> # mid @
       [\<lparr>role = User, content = JStr (take 500 msg)\<rparr>]"
    and l: "list_all2
       (\<lambda>h m. role m = (if getMember h (ascii ''sender'') = Inr (JStr (ascii ''user''))
                         then User else Assistant) \<and>
              getMember h (ascii ''text'') = Inr (content m))
       (drop (length hist - 6) hist) mid"
    by blast
  from m have msg: "msg = ascii ''What does the monthly retainer cover''"
    by (simp add: post_chat_fields)
  from hi have hist: "hist = ten_turns"
    by (simp add: post_chat_fields)
  have t: "take 500 msg = msg"
    by (simp add: msg ascii_def)
  from l have "map role mid = [User, Assistant, User, Assistant, User, Assistant] \<and>
    map content mid = [JStr (ascii ''q3''), JStr (ascii ''a3''), JStr (ascii ''q4''),
        JStr (ascii ''a4''), JStr (ascii ''q5''), JStr (ascii ''a5'')]"
    unfolding hist by (auto simp: ten_turns_def turn_def list_all2_Cons1 ascii_def)
  with h cs ms t msg show ?thesis
    by simp
qed

text \<open>
  Claim C6. For a \<open>POST\<close> request with a credential, a message that is a
  non-empty string, and a history that is absent or an array whose last six
  elements are neither \<open>null\<close> nor \<open>undefined\<close>, the handler makes one call to the
  provider, and the last message of the call is the user message whose content is
  the first 500 code units of the message.
\<close>

theorem message_truncated_to_500:
  assumes "method req = ascii ''POST''" and "OPENROUTER_API_KEY e = Some key" and "key \<noteq> []"
    and "getMember (body req) (ascii ''message'') = Inr (JStr msg)" and "msg \<noteq> []"
    and "getMember (body req) (ascii ''history'') = Inr (JArr hist) \<or>
         getMember (body req) (ascii ''history'') = Inr JUndefined \<and> hist = []"
    and "\<forall>h\<in>set (drop (length hist - 6) hist). h \<noteq> JNull \<and> h \<noteq> JUndefined"
  shows "\<exists>r c. handler e req = Inr r \<and> calls r = [c] \<and>
           last (messages c) = \<lparr>role = User, content = JStr (take 500 msg)\<rparr>"
proof -
  have s500: "slice_list msg 0 (Some 500) = take 500 msg"
    using slice_list_prefix [of msg 500] by simp
  have s6: "slice_list hist (- 6) None = drop (length hist - 6) hist"
    using slice_list_suffix [of 6 hist] by simp
  from assms(4,6) have d: "destructure (body req) = Inr (JStr msg, JArr hist)"
    by (auto simp: destructure_Inr)
  from assms(7) have "\<forall>h\<in>set (slice_list hist (- 6) None). \<exists>u. toChatMessage h = Inr u"
    by (simp add: s6 toChatMessage_total)
  then obtain chatHistory where
    ch: "map_throwing toChatMessage (slice_list hist (- 6) None) = Inr chatHistory"
    using map_throwing_total by blast
  show ?thesis
    unfolding handler_valid [OF assms(1,2,3) d assms(5) ch]
    by (simp add: calls_tryBlock messages_buildCall s500)
qed

text \<open>A message of 600 code units: the call carries its first 500.\<close>

theorem message_truncated_to_500_witness:
  "length (replicate 600 (0x61 :: codeunit)) = 600 \<and>
   (\<exists>r c. handler (env_with provider_replies) (post_chat (replicate 600 0x61) ten_turns) = Inr r \<and>
      calls r = [c] \<and>
      last (messages c) = \<lparr>role = User, content = JStr (replicate 500 0x61)\<rparr>)"
proof -
  have n: "replicate 600 (0x61 :: codeunit) \<noteq> []"
    by simp
  have h: "getMember (body (post_chat (replicate 600 0x61) ten_turns)) (ascii ''history'') =
             Inr (JArr ten_turns) \<or>
           getMember (body (post_chat (replicate 600 0x61) ten_turns)) (ascii ''history'') =
             Inr JUndefined \<and> ten_turns = []"
    by (simp add: post_chat_fields)
  from message_truncated_to_500 [OF post_chat_fields(1) env_with_fields(1,2) post_chat_fields(2) n h ten_turns_objects,
      of provider_replies]
  show ?thesis
    by simp
qed

text \<open>
  Claim C4, as stated, fails: when the provider answers with a success whose
  content is the number 42, no reply text can be extracted, yet the test \<open>!reply\<close>
  of line 144 lets the number pass, and the handler answers with status 200 and
  the number as the reply.
\<close>

theorem number_reply_200_counterexample:
  "fetch (env_with provider_number)
     (buildCall (ascii ''sk-test'') (ascii ''x-ai/grok-4.1-fast'') [] (ascii ''hello'')) =
     Resolved
       \<lparr>ok = True,
        body_text =
          Inr (concat [ascii ''{'', [0x22], ascii ''choices'', [0x22], ascii '':[{'', [0x22],
                       ascii ''message'', [0x22], ascii '':{'', [0x22], ascii ''content'', [0x22],
                       ascii '':42}}]}'']),
        body_json =
          Inr (JObj [(ascii ''choices'',
                      JArr [JObj [(ascii ''message'',
                                   JObj [(ascii ''content'', JNum (Finite 42))])]])])\<rparr> \<and>
   extractReply
     (JObj [(ascii ''choices'',
             JArr [JObj [(ascii ''message'', JObj [(ascii ''content'', JNum (Finite 42))])]])]) =
     Inr (JNum (Finite 42)) \<and>
   typeof (JNum (Finite 42)) = ascii ''number'' \<and>
   ascii ''number'' \<noteq> ascii ''string'' \<and>
   handler (env_with provider_number) (post_chat (ascii ''hello'') []) =
     Inr \<lparr>response =
            \<lparr>status = 200,
             json = JObj [(ascii ''reply'', JNum (Finite 42)),
                          (ascii ''model'', JStr (ascii ''x-ai/grok-4.1-fast'')),
                          (ascii ''complexity'', JStr (ascii ''simple''))]\<rparr>,
          calls = [buildCall (ascii ''sk-test'') (ascii ''x-ai/grok-4.1-fast'') []
                     (ascii ''hello'')],
          logs = []\<rparr>"
proof -
  have x: "extractReply
     (JObj [(ascii ''choices'',
             JArr [JObj [(ascii ''message'', JObj [(ascii ''content'', JNum (Finite 42))])]])]) =
     Inr (JNum (Finite 42))"
    by (simp add: extractReply_def nullish_def ascii_def)
  have f: "fetch (env_with provider_number)
     (buildCall (ascii ''sk-test'') (ascii ''x-ai/grok-4.1-fast'') [] (ascii ''hello'')) =
     Resolved
       \<lparr>ok = True,
        body_text =
          Inr (concat [ascii ''{'', [0x22], ascii ''choices'', [0x22], ascii '':[{'', [0x22],
                       ascii ''message'', [0x22], ascii '':{'', [0x22], ascii ''content'', [0x22],
                       ascii '':42}}]}'']),
        body_json =
          Inr (JObj [(ascii ''choices'',
                      JArr [JObj [(ascii ''message'',
                                   JObj [(ascii ''content'', JNum (Finite 42))])]])])\<rparr>"
    by (simp add: env_with_fields provider_number_def)
  have n: "ascii ''hello'' \<noteq> []"
    by (simp add: ascii_def)
  have d: "destructure (body (post_chat (ascii ''hello'') [])) = Inr (JStr (ascii ''hello''), JArr [])"
    by (simp add: destructure_Inr post_chat_fields)
  have m: "map_throwing toChatMessage (slice_list [] (- 6) None) = Inr []"
    by (simp add: slice_list_def)
  have s: "slice_list (ascii ''hello'') 0 (Some 500) = ascii ''hello''"
    by (simp add: slice_list_def ascii_def)
  have t: "detectComplexity toLowerCase_ascii (ascii ''hello'') ([] :: jsval list) = Simple"
    by code_simp
  have g: "MODELS Simple = ascii ''x-ai/grok-4.1-fast''"
    by (simp add: MODELS_def)
  have "handler (env_with provider_number) (post_chat (ascii ''hello'') []) =
     Inr (tryBlock (env_with provider_number) Simple (ascii ''x-ai/grok-4.1-fast'')
            (buildCall (ascii ''sk-test'') (ascii ''x-ai/grok-4.1-fast'') [] (ascii ''hello'')))"
    using handler_valid [OF post_chat_fields(1) env_with_fields(1,2) d n m, of provider_number]
    by (simp add: env_with_fields(4) s t g)
  moreover have "tryBlock (env_with provider_number) Simple (ascii ''x-ai/grok-4.1-fast'')
            (buildCall (ascii ''sk-test'') (ascii ''x-ai/grok-4.1-fast'') [] (ascii ''hello'')) =
     \<lparr>response =
            \<lparr>status = 200,
             json = JObj [(ascii ''reply'', JNum (Finite 42)),
                          (ascii ''model'', JStr (ascii ''x-ai/grok-4.1-fast'')),
                          (ascii ''complexity'', JStr (ascii ''simple''))]\<rparr>,
          calls = [buildCall (ascii ''sk-test'') (ascii ''x-ai/grok-4.1-fast'') []
                     (ascii ''hello'')],
          logs = []\<rparr>"
    by (simp add: tryBlock_def f x tier_name_def)
  moreover have "ascii ''number'' \<noteq> ascii ''string''"
    by (simp add: ascii_def)
  ultimately show ?thesis
    using f x by simp
qed

text \<open>
  Claim C4, amended. When the provider answers the call with a status that is not
  a success, or with a success from which no reply comes (\<open>json()\<close> is rejected,
  the chain of line 142 throws, or its value is falsy: \<open>undefined\<close>, \<open>null\<close>,
  \<open>false\<close>, zero, not-a-number or the empty string), the response is status 500
  with the body \<open>{error: "Something went wrong. Please try again."}\<close>: a constant,
  in which nothing of the provider's answer appears.
\<close>

theorem provider_failure_generic_500:
  assumes "handler e req = Inr r" and "calls r = [c]" and "fetch e c = Resolved resp"
    and "\<not> ok resp \<or>
         (case body_json resp of
            Inl err \<Rightarrow> True
          | Inr data \<Rightarrow> (case extractReply data of Inl err \<Rightarrow> True | Inr reply \<Rightarrow> falsy reply))"
  shows "response r =
     \<lparr>status = 500,
      json = JObj [(ascii ''error'', JStr (ascii ''Something went wrong. Please try again.''))]\<rparr>"
proof -
  from assms(2) have "calls r \<noteq> []" by simp
  with assms(1) obtain t mdl c' where r: "r = tryBlock e t mdl c'"
    by (rule handler_call_made)
  with assms(2) have "c' = c"
    by (simp add: calls_tryBlock)
  with r assms(3,4) show ?thesis
    by (simp add: tryBlock_failure)
qed

text \<open>The same request with a provider that answers without success, and with one
  whose answer has no choices: the response is the same, and the provider's text is
  only logged.\<close>

theorem provider_failure_generic_500_witness:
  "(\<exists>r c. handler (env_with provider_refuses)
             (post_chat (ascii ''What does the monthly retainer cover'') ten_turns) = Inr r \<and>
      calls r = [c] \<and>
      response r =
        \<lparr>status = 500,
         json = JObj [(ascii ''error'',
                       JStr (ascii ''Something went wrong. Please try again.''))]\<rparr> \<and>
      logs r = [OpenRouter_error (ascii ''rate limit exceeded for key sk-test''),
                Chat_handler_error (Error (ascii ''OpenRouter request failed''))]) \<and>
   (\<exists>r c. handler (env_with provider_silent)
             (post_chat (ascii ''What does the monthly retainer cover'') ten_turns) = Inr r \<and>
      calls r = [c] \<and>
      response r =
        \<lparr>status = 500,
         json = JObj [(ascii ''error'',
                       JStr (ascii ''Something went wrong. Please try again.''))]\<rparr> \<and>
      logs r = [Chat_handler_error (Error (ascii ''No response from model''))])"
proof -
  let ?req = "post_chat (ascii ''What does the monthly retainer cover'') ten_turns"
  obtain t where
    r1: "handler (env_with provider_refuses) ?req =
           Inr (tryBlock (env_with provider_refuses) t (MODELS t)
                  (buildCall (ascii ''sk-test'') (MODELS t)
                     [\<lparr>role = User, content = JStr (ascii ''q3'')\<rparr>,
                      \<lparr>role = Assistant, content = JStr (ascii ''a3'')\<rparr>,
                      \<lparr>role = User, content = JStr (ascii ''q4'')\<rparr>,
                      \<lparr>role = Assistant, content = JStr (ascii ''a4'')\<rparr>,
                      \<lparr>role = User, content = JStr (ascii ''q5'')\<rparr>,
                      \<lparr>role = Assistant, content = JStr (ascii ''a5'')\<rparr>]
                     (slice_list (ascii ''What does the monthly retainer cover'') 0 (Some 500))))"
      (is "_ = Inr (tryBlock _ _ _ ?c1)")
    using handler_post_chat [OF retainer_question chatHistory_ten_turns, of provider_refuses]
    by blast
  have f1: "fetch (env_with provider_refuses) ?c1 =
      Resolved \<lparr>ok = False,
        body_text = Inr (ascii ''rate limit exceeded for key sk-test''),
        body_json = Inl SyntaxError\<rparr>"
    by (simp add: env_with_fields provider_refuses_def)
  have "response (tryBlock (env_with provider_refuses) t (MODELS t) ?c1) =
        \<lparr>status = 500,
         json = JObj [(ascii ''error'',
                       JStr (ascii ''Something went wrong. Please try again.''))]\<rparr>"
    by (rule provider_failure_generic_500 [OF r1 calls_tryBlock f1]) simp
  moreover have "logs (tryBlock (env_with provider_refuses) t (MODELS t) ?c1) =
     [OpenRouter_error (ascii ''rate limit exceeded for key sk-test''),
                Chat_handler_error (Error (ascii ''OpenRouter request failed''))]"
    by (simp add: tryBlock_def f1 caught_def)
  ultimately have A: "\<exists>r c. handler (env_with provider_refuses) ?req = Inr r \<and>
      calls r = [c] \<and>
      response r =
        \<lparr>status = 500,
         json = JObj [(ascii ''error'',
                       JStr (ascii ''Something went wrong. Please try again.''))]\<rparr> \<and>
      logs r = [OpenRouter_error (ascii ''rate limit exceeded for key sk-test''),
                Chat_handler_error (Error (ascii ''OpenRouter request failed''))]"
    using r1 calls_tryBlock by blast
  obtain t' where
    r2: "handler (env_with provider_silent) ?req =
           Inr (tryBlock (env_with provider_silent) t' (MODELS t')
                  (buildCall (ascii ''sk-test'') (MODELS t')
                     [\<lparr>role = User, content = JStr (ascii ''q3'')\<rparr>,
                      \<lparr>role = Assistant, content = JStr (ascii ''a3'')\<rparr>,
                      \<lparr>role = User, content = JStr (ascii ''q4'')\<rparr>,
                      \<lparr>role = Assistant, content = JStr (ascii ''a4'')\<rparr>,
                      \<lparr>role = User, content = JStr (ascii ''q5'')\<rparr>,
                      \<lparr>role = Assistant, content = JStr (ascii ''a5'')\<rparr>]
                     (slice_list (ascii ''What does the monthly retainer cover'') 0 (Some 500))))"
      (is "_ = Inr (tryBlock _ _ _ ?c2)")
    using handler_post_chat [OF retainer_question chatHistory_ten_turns, of provider_silent]
    by blast
  have f2: "fetch (env_with provider_silent) ?c2 =
      Resolved \<lparr>ok = True,
        body_text = Inr (concat [ascii ''{'', [0x22], ascii ''choices'', [0x22], ascii '':[]}'']),
        body_json = Inr (JObj [(ascii ''choices'', JArr [])])\<rparr>"
    by (simp add: env_with_fields provider_silent_def)
  have "response (tryBlock (env_with provider_silent) t' (MODELS t') ?c2) =
        \<lparr>status = 500,
         json = JObj [(ascii ''error'',
                       JStr (ascii ''Something went wrong. Please try again.''))]\<rparr>"
    by (rule provider_failure_generic_500 [OF r2 calls_tryBlock f2]) (simp add: extractReply_no_choices)
  moreover have "logs (tryBlock (env_with provider_silent) t' (MODELS t') ?c2) =
     [Chat_handler_error (Error (ascii ''No response from model''))]"
    by (simp add: tryBlock_def f2 caught_def extractReply_no_choices)
  ultimately have B: "\<exists>r c. handler (env_with provider_silent) ?req = Inr r \<and>
      calls r = [c] \<and>
      response r =
        \<lparr>status = 500,
         json = JObj [(ascii ''error'',
                       JStr (ascii ''Something went wrong. Please try again.''))]\<rparr> \<and>
      logs r = [Chat_handler_error (Error (ascii ''No response from model''))]"
    using r2 calls_tryBlock by blast
  from A B show ?thesis by blast
qed

text \<open>
  Claim C10. The table \<open>MODELS\<close> of \<open>api/chat.js\<close> gives \<open>x-ai/grok-4.1-fast\<close> for
  each of the three tiers; so whenever the handler answers with status 200, the
  call it made to the provider names that model, and so does the \<open>model\<close> field of
  the response.
\<close>

theorem model_independent_of_tier:
  "MODELS t = ascii ''x-ai/grok-4.1-fast'' \<and>
   (handler e req = Inr r \<and> status (response r) = 200 \<longrightarrow>
      (\<exists>c. calls r = [c] \<and> model c = ascii ''x-ai/grok-4.1-fast'') \<and>
      getMember (json (response r)) (ascii ''model'') = Inr (JStr (ascii ''x-ai/grok-4.1-fast'')))"
proof -
  have M: "MODELS t' = ascii ''x-ai/grok-4.1-fast''" for t'
    by (cases t') (simp_all add: MODELS_def)
  have "(\<exists>c. calls r = [c] \<and> model c = ascii ''x-ai/grok-4.1-fast'') \<and>
      getMember (json (response r)) (ascii ''model'') = Inr (JStr (ascii ''x-ai/grok-4.1-fast''))"
    if h: "handler e req = Inr r" and s: "status (response r) = 200"
  proof -
    from h s have "calls r \<noteq> []"
      by (auto simp: handler_def respond_def calls_tryBlock Let_def
          split: if_splits option.splits sum.splits prod.splits jsval.splits)
    with h obtain key tr ch sanitized where
      r: "r = tryBlock e tr (MODELS tr) (buildCall key (MODELS tr) ch sanitized)"
      by (rule handler_call_made)
    from s obtain reply where
      "json (response r) = JObj [(ascii ''reply'', reply), (ascii ''model'', JStr (MODELS tr)),
                 (ascii ''complexity'', JStr (tier_name tr))]"
      unfolding r using tryBlock_success by blast
    then have "getMember (json (response r)) (ascii ''model'') = Inr (JStr (MODELS tr))"
      by (simp add: ascii_def)
    then show ?thesis
      by (simp add: r calls_tryBlock model_buildCall M)
  qed
  with M show ?thesis by blast
qed

text \<open>A request classified \<open>complex\<close>, answered with status 200.\<close>

theorem model_independent_of_tier_witness:
  "(\<exists>r c. handler (env_with provider_replies)
             (post_chat (ascii ''What does the monthly retainer cover'') ten_turns) = Inr r \<and>
      getMember (json (response r)) (ascii ''complexity'') = Inr (JStr (ascii ''complex'')) \<and>
      status (response r) = 200 \<and> calls r = [c] \<and> model c = ascii ''x-ai/grok-4.1-fast'' \<and>
      getMember (json (response r)) (ascii ''model'') = Inr (JStr (ascii ''x-ai/grok-4.1-fast'')))"
proof -
  have d: "destructure (body (post_chat (ascii ''What does the monthly retainer cover'') ten_turns)) =
     Inr (JStr (ascii ''What does the monthly retainer cover''), JArr ten_turns)"
    by (simp add: destructure_Inr post_chat_fields)
  have t: "detectComplexity (toLowerCase (env_with provider_replies))
     (slice_list (ascii ''What does the monthly retainer cover'') 0 (Some 500)) ten_turns = Complex"
    unfolding env_with_fields by code_simp
  note h = handler_valid [OF post_chat_fields(1) env_with_fields(1,2) d retainer_question
      chatHistory_ten_turns, of provider_replies, unfolded t tryBlock_provider_replies]
  have s: "status (response \<lparr>response =
        \<lparr>status = 200,
         json = JObj [(ascii ''reply'', JStr (ascii ''Happy to help.'')),
                      (ascii ''model'', JStr (MODELS Complex)),
                      (ascii ''complexity'', JStr (tier_name Complex))]\<rparr>,
      calls = [buildCall (ascii ''sk-test'') (MODELS Complex)
                     [\<lparr>role = User, content = JStr (ascii ''q3'')\<rparr>,
                      \<lparr>role = Assistant, content = JStr (ascii ''a3'')\<rparr>,
                      \<lparr>role = User, content = JStr (ascii ''q4'')\<rparr>,
                      \<lparr>role = Assistant, content = JStr (ascii ''a4'')\<rparr>,
                      \<lparr>role = User, content = JStr (ascii ''q5'')\<rparr>,
                      \<lparr>role = Assistant, content = JStr (ascii ''a5'')\<rparr>]
                     (slice_list (ascii ''What does the monthly retainer cover'') 0 (Some 500))],
      logs = []\<rparr>) = 200"
    by simp
  from model_independent_of_tier [THEN conjunct2, rule_format, OF conjI [OF h s]] h
  show ?thesis
    by (simp add: tier_name_def model_buildCall ascii_def)
qed

end
